theory Spec2Isabelle
  imports Complex_Main
begin

section \<open>Snow melt model and calibration sweep of \<^verbatim>\<open>runoff_ans.py\<close>\<close>

text \<open>
  The script holds a PCRaster dynamic model (class \<^verbatim>\<open>MyFirstModel\<close>) and a loop that
  calibrates one of its two parameters. PCRaster maps are modelled as lists holding one
  value for each cell of the map, in a fixed cell order; the map operations of the
  source (\<^verbatim>\<open>+\<close>, \<^verbatim>\<open>-\<close>, \<^verbatim>\<open>*\<close>, \<^verbatim>\<open><\<close>, \<^verbatim>\<open>ifthenelse\<close>, \<^verbatim>\<open>pcrnot\<close>,
  \<^verbatim>\<open>min\<close>) work cell by cell. Scalars are exact real numbers: the rounding of the
  machine's floating point numbers is not part of this model. Every cell holds a value:
  cells without a value are left out. Of the maps that the model reports to disk, the
  runoff generated (\<^verbatim>\<open>rg\<close>) is kept, one map a day; plotting is left out.
\<close>

subsection \<open>Errors\<close>

datatype error =
  FrameworkError        \<comment> \<open>the framework refuses a run of no time step\<close>
  | ForcingDataError    \<comment> \<open>a time series has no row for the current time step\<close>
  | ConfigurationError  \<comment> \<open>the observation location is not a single cell\<close>
  | IndexError          \<comment> \<open>a row beyond the end of a series or an array is written\<close>

subsection \<open>Inputs read from files\<close>

record inputs =
  dem :: "real list"                \<comment> \<open>\<^verbatim>\<open>dem.map\<close>: elevation of each cell\<close>
  out :: "bool list"                \<comment> \<open>\<^verbatim>\<open>out.map\<close>: the measurement location\<close>
  precip_tss :: "real list"         \<comment> \<open>\<^verbatim>\<open>precip.tss\<close>, column 1, one row a day\<close>
  temp_tss :: "real list"           \<comment> \<open>\<^verbatim>\<open>temp.tss\<close>\<close>
  observed_tss :: "real list"       \<comment> \<open>\<^verbatim>\<open>observed.tss\<close>\<close>
  cellarea :: real                  \<comment> \<open>area of one cell of the clone map\<close>
  lddcreate :: "real list \<Rightarrow> nat option list"
    \<comment> \<open>the drainage network PCRaster derives from an elevation map\<close>

text \<open>\<^verbatim>\<open>timeinputscalar(file, 1)\<close> at time step \<open>t\<close> (counted from 1) gives row \<open>t\<close>.\<close>

definition timeinputscalar :: "real list \<Rightarrow> nat \<Rightarrow> error + real" where
  "timeinputscalar tss t =
     (if 1 \<le> t \<and> t \<le> length tss then Inr (tss ! (t - 1)) else Inl ForcingDataError)"

subsection \<open>The daily transition of one cell\<close>

text \<open>Lines 58 to 77 of the source, for one cell; every intermediate map is kept.\<close>

record cell_day =
  c_temperature :: real
  c_freezing :: bool
  c_snowFall :: real
  c_rainFall :: real
  c_potentialMelt :: real
  c_actualMelt :: real
  c_snow :: real
  c_runoffGenerated :: real

definition dynamic_cell :: "real \<Rightarrow> real \<Rightarrow> real \<Rightarrow> real \<Rightarrow> real \<Rightarrow> cell_day" where
  "dynamic_cell meltRate_v temperatureCorrection_v precipitation temperatureObserved snow_v =
     (let temperature = temperatureObserved - temperatureCorrection_v;
          freezing = (temperature < 0);
          snowFall = (if freezing then precipitation else 0);
          rainFall = (if \<not> freezing then precipitation else 0);
          snow1 = snow_v + snowFall;
          potentialMelt = (if \<not> freezing then temperature * meltRate_v else 0);
          actualMelt = min snow1 potentialMelt;
          snow2 = snow1 - actualMelt;
          runoffGenerated = actualMelt + rainFall
      in \<lparr> c_temperature = temperature, c_freezing = freezing, c_snowFall = snowFall,
           c_rainFall = rainFall, c_potentialMelt = potentialMelt,
           c_actualMelt = actualMelt, c_snow = snow2,
           c_runoffGenerated = runoffGenerated \<rparr>)"

subsection \<open>Drainage network and flow accumulation\<close>

text \<open>
  Modelled from the spec: \<^verbatim>\<open>accuflux\<close> and the local drain direction map it reads are
  PCRaster's, and their code is not part of the script. By the spec's data model, a
  drainage network gives every cell one downstream neighbour, or none when the cell is a
  pit or an outlet, and the accumulated flux of a cell is its own material plus the
  accumulated flux of all cells whose downstream pointer targets it, computed from the
  sources toward the sinks. A network is a list of pointers, one for each cell.
\<close>

type_synonym ldd_map = "nat option list"

definition downstream :: "ldd_map \<Rightarrow> nat \<Rightarrow> nat option" where
  "downstream l c = (if c < length l then l ! c else None)"

definition upstream :: "ldd_map \<Rightarrow> nat \<Rightarrow> nat list" where
  "upstream l i = filter (\<lambda>j. downstream l j = Some i) [0..<length l]"

text \<open>The cell reached from \<open>j\<close> after \<open>k\<close> steps along the pointers, if there is one.\<close>

fun follow :: "ldd_map \<Rightarrow> nat \<Rightarrow> nat \<Rightarrow> nat option" where
  "follow l 0 j = (if j < length l then Some j else None)"
| "follow l (Suc k) j = (case follow l k j of None \<Rightarrow> None | Some c \<Rightarrow> downstream l c)"

text \<open>
  The spec's invariant of a drainage network: from any cell, following the downstream
  pointers ends within as many steps as the map has cells.
\<close>

definition acyclic_ldd :: "ldd_map \<Rightarrow> bool" where
  "acyclic_ldd l = (list_all (\<lambda>j. follow l (length l) j = None) [0..<length l])"

text \<open>
  The accumulation below a bound on the length of the flow paths taken into account:
  with bound \<open>Suc f\<close> a cell gets its own material and what its upstream neighbours
  get with bound \<open>f\<close>.
\<close>

fun accu :: "nat \<Rightarrow> ldd_map \<Rightarrow> real list \<Rightarrow> nat \<Rightarrow> real" where
  "accu 0 l material i = 0"
| "accu (Suc f) l material i =
     material ! i + sum_list (map (accu f l material) (upstream l i))"

definition accuflux :: "ldd_map \<Rightarrow> real list \<Rightarrow> real list" where
  "accuflux l material = map (accu (length l) l material) [0..<length l]"

text \<open>
  Modelled from the spec: \<^verbatim>\<open>getCellValueAtBooleanLocation\<close> is a helper of the
  framework. The spec has the gauge location as a Boolean mask with exactly one true
  cell, and any other mask as a fatal configuration error.
\<close>

definition true_cells :: "bool list \<Rightarrow> nat list" where
  "true_cells location = filter (\<lambda>i. location ! i) [0..<length location]"

definition getCellValueAtBooleanLocation :: "bool list \<Rightarrow> real list \<Rightarrow> error + real" where
  "getCellValueAtBooleanLocation location m =
     (case true_cells location of
        [g] \<Rightarrow> (if g < length m then Inr (m ! g) else Inl ConfigurationError)
      | _ \<Rightarrow> Inl ConfigurationError)"

subsection \<open>The model object\<close>

record model =
  meltRate :: real
  temperatureLapseRate :: real
  observationLocation :: "bool list"
  temperatureCorrection :: "real list"
  snow :: "real list"
  ldd :: ldd_map
  totPrecip :: real
  modelled :: "real list"       \<comment> \<open>rows of the time series \<^verbatim>\<open>modelled\<close>\<close>
  diffOut :: "real list"        \<comment> \<open>rows of the time series \<^verbatim>\<open>diff_outflow\<close>\<close>
  simulation :: "real list"
  outflow_diff :: real
  rg_report :: "real list list" \<comment> \<open>the maps \<^verbatim>\<open>rg\<close> reported so far, one a day\<close>
  nrTimeSteps :: nat
  currentTimeStep :: nat

text \<open>
  What lies outside one model object: the number of drainage networks derived so far,
  that is, of calls of \<^verbatim>\<open>lddcreate\<close>.
\<close>

type_synonym world = nat

text \<open>\<^verbatim>\<open>__init__\<close>: the parameter passed is the melt rate or the lapse rate.\<close>

definition MyFirstModel :: "real \<Rightarrow> bool \<Rightarrow> model" where
  "MyFirstModel myParameter cali_on_melt_rate =
     (let (m, t) = (if cali_on_melt_rate then (myParameter, 0.005) else (0.01, myParameter))
      in \<lparr> meltRate = m, temperatureLapseRate = t, observationLocation = [],
           temperatureCorrection = [], snow = [], ldd = [], totPrecip = 0,
           modelled = [], diffOut = [], simulation = [], outflow_diff = 0,
           rg_report = [], nrTimeSteps = 0, currentTimeStep = 0 \<rparr>)"

definition elevationMeteoStation :: real where
  "elevationMeteoStation = 208.1"

text \<open>
  \<^verbatim>\<open>initial\<close>. The snow store starts as the number 0.0, which the first addition of a
  map makes a map: here it is a map of zeros from the start. The two time series and
  the array \<^verbatim>\<open>simulation\<close> have one row for each time step.
\<close>

definition initial :: "inputs \<Rightarrow> model \<Rightarrow> world \<Rightarrow> model \<times> world" where
  "initial inp self w =
     (let elevationAboveMeteoStation = map (\<lambda>e. e - elevationMeteoStation) (dem inp)
      in (self\<lparr> observationLocation := out inp,
                temperatureCorrection :=
                  map (\<lambda>a. a * temperatureLapseRate self) elevationAboveMeteoStation,
                snow := replicate (length (dem inp)) 0,
                ldd := lddcreate inp (dem inp),
                totPrecip := 0,
                modelled := replicate (nrTimeSteps self) 0,
                diffOut := replicate (nrTimeSteps self) 0,
                simulation := replicate (nrTimeSteps self) 0 \<rparr>,
          Suc w))"

text \<open>
  \<^verbatim>\<open>dynamic\<close>, for the time step \<^verbatim>\<open>currentTimeStep\<close>. The two time series and
  the array \<^verbatim>\<open>simulation\<close> are written at row \<^verbatim>\<open>currentTimeStep - 1\<close>; a row they do
  not have is an index error.
\<close>

definition dynamic :: "inputs \<Rightarrow> model \<Rightarrow> error + model" where
  "dynamic inp self =
     (case timeinputscalar (precip_tss inp) (currentTimeStep self) of
        Inl e \<Rightarrow> Inl e
      | Inr precipitation \<Rightarrow>
     (case timeinputscalar (temp_tss inp) (currentTimeStep self) of
        Inl e \<Rightarrow> Inl e
      | Inr temperatureObserved \<Rightarrow>
     (let cells = map2 (\<lambda>tc s. dynamic_cell (meltRate self) tc precipitation
                                   temperatureObserved s)
                    (temperatureCorrection self) (snow self);
          runoffGenerated = map c_runoffGenerated cells;
          discharge = accuflux (ldd self) (map (\<lambda>r. r * cellarea inp) runoffGenerated)
      in case getCellValueAtBooleanLocation (observationLocation self) discharge of
           Inl e \<Rightarrow> Inl e
         | Inr runoffAtOutflowPoint \<Rightarrow>
        (if \<not> currentTimeStep self - 1 < length (modelled self) then Inl IndexError
         else
        (case timeinputscalar (observed_tss inp) (currentTimeStep self) of
           Inl e \<Rightarrow> Inl e
         | Inr observed \<Rightarrow>
            (if \<not> currentTimeStep self - 1 < length (diffOut self) then Inl IndexError
             else if \<not> currentTimeStep self - 1 < length (simulation self)
             then Inl IndexError
             else
             Inr (self\<lparr> snow := map c_snow cells,
                       rg_report := rg_report self @ [runoffGenerated],
                       modelled := (modelled self)
                          [currentTimeStep self - 1 := runoffAtOutflowPoint],
                       outflow_diff := observed - runoffAtOutflowPoint,
                       diffOut := (diffOut self)
                          [currentTimeStep self - 1 := observed - runoffAtOutflowPoint],
                       simulation := (simulation self)
                          [currentTimeStep self - 1 := observed - runoffAtOutflowPoint]
                     \<rparr>)))))))"

text \<open>
  Modelled from the spec: the framework's \<^verbatim>\<open>DynamicFramework(model, N).run()\<close> is
  PCRaster's. It initialises the model and then advances it through the days 1 to \<open>N\<close>
  in order; \<open>run_until inp self d\<close> is the model after day \<open>d\<close>.
\<close>

fun run_until :: "inputs \<Rightarrow> model \<Rightarrow> nat \<Rightarrow> error + model" where
  "run_until inp self 0 = Inr self"
| "run_until inp self (Suc d) =
     (case run_until inp self d of
        Inl e \<Rightarrow> Inl e
      | Inr s \<Rightarrow> dynamic inp (s\<lparr>currentTimeStep := Suc d\<rparr>))"

definition run :: "inputs \<Rightarrow> nat \<Rightarrow> model \<Rightarrow> world \<Rightarrow> (error + model) \<times> world" where
  "run inp N self w =
     (if N = 0 then (Inl FrameworkError, w)
      else (let (s, w1) = initial inp (self\<lparr>nrTimeSteps := N\<rparr>) w
            in (run_until inp s N, w1)))"

subsection \<open>The calibration loop\<close>

text \<open>\<^verbatim>\<open>numpy.rint\<close>: the nearest integer, the even one of two that are as near.\<close>

definition rint :: "real \<Rightarrow> real" where
  "rint x =
     (let f = \<lfloor>x\<rfloor>; d = x - of_int f
      in if d < 1/2 then of_int f
         else if 1/2 < d then of_int (f + 1)
         else if even f then of_int f else of_int (f + 1))"

text \<open>\<^verbatim>\<open>numpy.round(x, 4)\<close> scales by \<open>10\<^sup>4\<close>, rounds to an integer and scales back.\<close>

definition round4 :: "real \<Rightarrow> real" where
  "round4 x = rint (x * 10000) / 10000"

text \<open>
  \<^verbatim>\<open>numpy.mean\<close>. The loop applies it to the array of a finished run, which has at
  least one row.
\<close>

definition mean :: "real list \<Rightarrow> real" where
  "mean xs = sum_list xs / of_nat (length xs)"

type_synonym sweep_record = "real \<times> real \<times> real"

text \<open>
  The loop over \<^verbatim>\<open>my_range\<close> (lines 125 to 147), started with the list \<^verbatim>\<open>result\<close>
  collected so far. An error raised by a run ends the script. The script runs the loop
  with 181 time steps; here the number of time steps is a parameter. The printed line and
  the table \<^verbatim>\<open>np_result\<close>, which holds the same three values as text, are left out.
\<close>

fun calibration :: "inputs \<Rightarrow> bool \<Rightarrow> nat \<Rightarrow> real list \<Rightarrow> sweep_record list \<times> world
    \<Rightarrow> error + (sweep_record list \<times> world)" where
  "calibration inp calibrate_melt_rate N [] (result, w) = Inr (result, w)"
| "calibration inp calibrate_melt_rate N (i # my_range) (result, w) =
     (let myModel = MyFirstModel i calibrate_melt_rate;
          (r, w1) = run inp N myModel w
      in case r of
           Inl e \<Rightarrow> Inl e
         | Inr finished \<Rightarrow>
             (let runOffModelled = simulation finished;
                  diff = mean (map abs runOffModelled)
              in calibration inp calibrate_melt_rate N my_range
                   (result @ [(round4 (meltRate finished),
                               round4 (temperatureLapseRate finished),
                               rint diff)], w1)))"

definition NR_OF_TIME_STEPS :: nat where
  "NR_OF_TIME_STEPS = 181"

subsection \<open>Notions used to state the properties\<close>

text \<open>
  The model after day \<open>d\<close> of a run of \<open>N\<close> days: \<^verbatim>\<open>initial\<close>, then the days 1 to
  \<open>d\<close>. The model of a run does not depend on the count of derived networks.
\<close>

definition after_day :: "inputs \<Rightarrow> nat \<Rightarrow> model \<Rightarrow> nat \<Rightarrow> error + model" where
  "after_day inp N self d = run_until inp (fst (initial inp (self\<lparr>nrTimeSteps := N\<rparr>) 0)) d"

text \<open>
  Inputs with which no run fails: at least one time step, a row for every time step in
  the three time series, a drainage network with one pointer for each cell of the
  elevation map, and exactly one observation cell, inside the map.
\<close>

definition well_formed :: "inputs \<Rightarrow> nat \<Rightarrow> bool" where
  "well_formed inp N =
     (1 \<le> N \<and> N \<le> length (precip_tss inp) \<and> N \<le> length (temp_tss inp)
      \<and> N \<le> length (observed_tss inp)
      \<and> length (lddcreate inp (dem inp)) = length (dem inp)
      \<and> (case true_cells (out inp) of [g] \<Rightarrow> g < length (dem inp) | _ \<Rightarrow> False))"

text \<open>The cell records and the discharge map that \<^verbatim>\<open>dynamic\<close> computes from a model.\<close>

definition cells_of :: "inputs \<Rightarrow> model \<Rightarrow> cell_day list" where
  "cells_of inp self =
     map2 (\<lambda>tc s. dynamic_cell (meltRate self) tc (precip_tss inp ! (currentTimeStep self - 1))
                     (temp_tss inp ! (currentTimeStep self - 1)) s)
       (temperatureCorrection self) (snow self)"

definition discharge_of :: "inputs \<Rightarrow> model \<Rightarrow> real list" where
  "discharge_of inp self =
     accuflux (ldd self) (map (\<lambda>r. r * cellarea inp) (map c_runoffGenerated (cells_of inp self)))"

text \<open>The cell records computed on day \<open>d\<close> of a run.\<close>

definition day_cells :: "inputs \<Rightarrow> nat \<Rightarrow> model \<Rightarrow> nat \<Rightarrow> error + cell_day list" where
  "day_cells inp N self d =
     (case after_day inp N self (d - 1) of
        Inl e \<Rightarrow> Inl e
      | Inr s \<Rightarrow> Inr (cells_of inp (s\<lparr>currentTimeStep := d\<rparr>)))"

text \<open>The discharge at the observation location computed on day \<open>d\<close> of a run.\<close>

definition day_discharge :: "inputs \<Rightarrow> nat \<Rightarrow> model \<Rightarrow> nat \<Rightarrow> error + real" where
  "day_discharge inp N self d =
     (case after_day inp N self (d - 1) of
        Inl e \<Rightarrow> Inl e
      | Inr s \<Rightarrow> getCellValueAtBooleanLocation (observationLocation s)
                   (discharge_of inp (s\<lparr>currentTimeStep := d\<rparr>)))"

text \<open>The record the calibration loop appends for a finished model.\<close>

definition sweep_record_of :: "model \<Rightarrow> sweep_record" where
  "sweep_record_of fin =
     (round4 (meltRate fin), round4 (temperatureLapseRate fin),
      rint (mean (map abs (simulation fin))))"

text \<open>The total snow store over the map at the end of a run.\<close>

definition final_total_snow :: "inputs \<Rightarrow> nat \<Rightarrow> model \<Rightarrow> real option" where
  "final_total_snow inp N self =
     (case fst (run inp N self 0) of Inl e \<Rightarrow> None | Inr fin \<Rightarrow> Some (sum_list (snow fin)))"

subsection \<open>Example inputs\<close>

definition all_pits :: "real list \<Rightarrow> nat option list" where
  "all_pits d = map (\<lambda>_. None) d"

text \<open>One cell at the elevation of the meteorological station, three days.\<close>

definition single_cell_inputs :: inputs where
  "single_cell_inputs =
     \<lparr> dem = [208.1], out = [True], precip_tss = [10, 0, 0], temp_tss = [-1, 5, 5],
       observed_tss = [0, 0, 0], cellarea = 1, lddcreate = all_pits \<rparr>"

text \<open>One cell, one freezing day with a negative precipitation value in the series.\<close>

definition negative_precip_inputs :: inputs where
  "negative_precip_inputs =
     \<lparr> dem = [208.1], out = [True], precip_tss = [-1], temp_tss = [-1],
       observed_tss = [0], cellarea = 1, lddcreate = all_pits \<rparr>"

text \<open>
  Two cells, the first draining into the second, which holds the observation location;
  one day of rain.
\<close>

definition two_cell_inputs :: inputs where
  "two_cell_inputs =
     \<lparr> dem = [300, 250], out = [False, True], precip_tss = [1], temp_tss = [5],
       observed_tss = [3], cellarea = 1, lddcreate = (\<lambda>d. [Some 1, None]) \<rparr>"

section \<open>Basic facts\<close>

lemma dynamic_cell_simps [simp]:
  "c_temperature (dynamic_cell m tc p T s) = T - tc"
  "c_freezing (dynamic_cell m tc p T s) = (T - tc < 0)"
  "c_snowFall (dynamic_cell m tc p T s) = (if T - tc < 0 then p else 0)"
  "c_rainFall (dynamic_cell m tc p T s) = (if T - tc < 0 then 0 else p)"
  "c_potentialMelt (dynamic_cell m tc p T s) = (if T - tc < 0 then 0 else (T - tc) * m)"
  "c_actualMelt (dynamic_cell m tc p T s) =
     (if T - tc < 0 then min (s + p) 0 else min s ((T - tc) * m))"
  "c_snow (dynamic_cell m tc p T s) =
     (if T - tc < 0 then s + p - min (s + p) 0 else s - min s ((T - tc) * m))"
  "c_runoffGenerated (dynamic_cell m tc p T s) =
     (if T - tc < 0 then min (s + p) 0 else min s ((T - tc) * m) + p)"
  by (simp_all add: dynamic_cell_def Let_def)

lemma timeinputscalar_Inr:
  "timeinputscalar tss t = Inr v \<longleftrightarrow> 1 \<le> t \<and> t \<le> length tss \<and> v = tss ! (t - 1)"
  by (auto simp: timeinputscalar_def)

lemma getCell_Inr:
  "getCellValueAtBooleanLocation loc m = Inr v \<longleftrightarrow>
     (\<exists>g. true_cells loc = [g] \<and> g < length m \<and> v = m ! g)"
  by (auto simp: getCellValueAtBooleanLocation_def split: list.splits)

lemma length_accuflux [simp]: "length (accuflux l m) = length l"
  by (simp add: accuflux_def)

lemma dynamic_Inr:
  "dynamic inp self = Inr self' \<longleftrightarrow>
     (1 \<le> currentTimeStep self \<and> currentTimeStep self \<le> length (precip_tss inp)
      \<and> currentTimeStep self \<le> length (temp_tss inp)
      \<and> currentTimeStep self \<le> length (observed_tss inp)
      \<and> currentTimeStep self \<le> length (modelled self)
      \<and> currentTimeStep self \<le> length (diffOut self)
      \<and> currentTimeStep self \<le> length (simulation self)
      \<and> (\<exists>g. true_cells (observationLocation self) = [g] \<and> g < length (ldd self)
         \<and> self' = self\<lparr> snow := map c_snow (cells_of inp self),
               rg_report := rg_report self @ [map c_runoffGenerated (cells_of inp self)],
               modelled := (modelled self)[currentTimeStep self - 1 := discharge_of inp self ! g],
               outflow_diff := observed_tss inp ! (currentTimeStep self - 1) - discharge_of inp self ! g,
               diffOut := (diffOut self)[currentTimeStep self - 1 :=
                   observed_tss inp ! (currentTimeStep self - 1) - discharge_of inp self ! g],
               simulation := (simulation self)[currentTimeStep self - 1 :=
                   observed_tss inp ! (currentTimeStep self - 1) - discharge_of inp self ! g]\<rparr>))"
proof (cases "getCellValueAtBooleanLocation (observationLocation self) (discharge_of inp self)")
  case (Inl e)
  then have "\<not> (\<exists>g. true_cells (observationLocation self) = [g] \<and> g < length (ldd self))"
    using getCell_Inr [of "observationLocation self" "discharge_of inp self"]
    by (auto simp: discharge_of_def getCellValueAtBooleanLocation_def split: list.splits if_splits)
  with Inl show ?thesis
    unfolding dynamic_def cells_of_def discharge_of_def timeinputscalar_def Let_def
    by (auto split: sum.splits)
next
  case (Inr v)
  then obtain g where g: "true_cells (observationLocation self) = [g]" "g < length (ldd self)"
      "v = discharge_of inp self ! g"
    by (auto simp: getCell_Inr discharge_of_def)
  with Inr show ?thesis
    unfolding dynamic_def cells_of_def discharge_of_def timeinputscalar_def Let_def
    by (auto split: sum.splits)
qed

lemma length_cells_of [simp]:
  "length (cells_of inp self) = min (length (temperatureCorrection self)) (length (snow self))"
  by (simp add: cells_of_def)

lemma nth_cells_of:
  "i < length (temperatureCorrection self) \<Longrightarrow> i < length (snow self) \<Longrightarrow>
   cells_of inp self ! i =
     dynamic_cell (meltRate self) (temperatureCorrection self ! i)
       (precip_tss inp ! (currentTimeStep self - 1)) (temp_tss inp ! (currentTimeStep self - 1))
       (snow self ! i)"
  by (simp add: cells_of_def)

lemma dynamic_frame:
  assumes "dynamic inp self = Inr self'"
  shows "meltRate self' = meltRate self"
    and "temperatureLapseRate self' = temperatureLapseRate self"
    and "temperatureCorrection self' = temperatureCorrection self"
    and "ldd self' = ldd self"
    and "observationLocation self' = observationLocation self"
    and "nrTimeSteps self' = nrTimeSteps self"
    and "currentTimeStep self' = currentTimeStep self"
    and "snow self' = map c_snow (cells_of inp self)"
    and "rg_report self' = rg_report self @ [map c_runoffGenerated (cells_of inp self)]"
    and "length (modelled self') = length (modelled self)"
    and "length (simulation self') = length (simulation self)"
    and "length (diffOut self') = length (diffOut self)"
  using assms by (auto simp: dynamic_Inr)

lemma run_until_frame:
  assumes "run_until inp s0 d = Inr s"
  shows "meltRate s = meltRate s0 \<and> temperatureLapseRate s = temperatureLapseRate s0
       \<and> temperatureCorrection s = temperatureCorrection s0 \<and> ldd s = ldd s0
       \<and> observationLocation s = observationLocation s0 \<and> nrTimeSteps s = nrTimeSteps s0
       \<and> length (modelled s) = length (modelled s0)
       \<and> length (simulation s) = length (simulation s0)
       \<and> length (diffOut s) = length (diffOut s0)
       \<and> length (rg_report s) = length (rg_report s0) + d
       \<and> (length (snow s0) = length (temperatureCorrection s0)
            \<longrightarrow> length (snow s) = length (temperatureCorrection s0))"
  using assms
proof (induction d arbitrary: s)
  case 0
  then show ?case by simp
next
  case (Suc d)
  from Suc.prems obtain m where m: "run_until inp s0 d = Inr m"
    and dyn: "dynamic inp (m\<lparr>currentTimeStep := Suc d\<rparr>) = Inr s"
    by (auto split: sum.splits)
  note ih = Suc.IH [OF m]
  note fr = dynamic_frame [OF dyn]
  show ?case using ih fr by simp
qed

lemma run_until_succeeds:
  assumes "d \<le> length (precip_tss inp)" "d \<le> length (temp_tss inp)"
      "d \<le> length (observed_tss inp)"
      "true_cells (observationLocation s0) = [g]" "g < length (ldd s0)"
      "d \<le> length (modelled s0)" "d \<le> length (diffOut s0)" "d \<le> length (simulation s0)"
  shows "\<exists>s. run_until inp s0 d = Inr s"
  using assms(1-3,6-8)
proof (induction d)
  case 0
  then show ?case by simp
next
  case (Suc d)
  then obtain m where m: "run_until inp s0 d = Inr m" by auto
  from run_until_frame [OF m] assms(4,5)
  have "true_cells (observationLocation m) = [g]" "g < length (ldd m)"
    "length (modelled m) = length (modelled s0)" "length (diffOut m) = length (diffOut s0)"
    "length (simulation m) = length (simulation s0)" by simp_all
  then have "\<exists>s. dynamic inp (m\<lparr>currentTimeStep := Suc d\<rparr>) = Inr s"
    using Suc.prems by (simp add: dynamic_Inr)
  with m show ?case by simp
qed

lemma run_until_prefix:
  "run_until inp s0 d = Inr s \<Longrightarrow> k \<le> d \<Longrightarrow> \<exists>m. run_until inp s0 k = Inr m"
proof (induction d arbitrary: s)
  case 0
  then show ?case by simp
next
  case (Suc d)
  then show ?case by (cases "k = Suc d") (auto split: sum.splits)
qed

lemma initial_fields [simp]:
  "meltRate (fst (initial inp self w)) = meltRate self"
  "temperatureLapseRate (fst (initial inp self w)) = temperatureLapseRate self"
  "observationLocation (fst (initial inp self w)) = out inp"
  "temperatureCorrection (fst (initial inp self w)) =
     map (\<lambda>e. (e - elevationMeteoStation) * temperatureLapseRate self) (dem inp)"
  "snow (fst (initial inp self w)) = replicate (length (dem inp)) 0"
  "ldd (fst (initial inp self w)) = lddcreate inp (dem inp)"
  "modelled (fst (initial inp self w)) = replicate (nrTimeSteps self) 0"
  "diffOut (fst (initial inp self w)) = replicate (nrTimeSteps self) 0"
  "simulation (fst (initial inp self w)) = replicate (nrTimeSteps self) 0"
  "rg_report (fst (initial inp self w)) = rg_report self"
  "nrTimeSteps (fst (initial inp self w)) = nrTimeSteps self"
  "snd (initial inp self w) = Suc w"
  by (simp_all add: initial_def Let_def comp_def)

lemma initial_world: "fst (initial inp self w) = fst (initial inp self 0)"
  by (simp add: initial_def)

lemma run_after_day:
  "0 < N \<Longrightarrow> run inp N self w = (after_day inp N self N, Suc w)"
  by (simp add: run_def after_day_def split_beta Let_def initial_world [of inp _ w])

lemma well_formed_gauge:
  "well_formed inp N \<Longrightarrow> \<exists>g. true_cells (out inp) = [g] \<and> g < length (dem inp)"
  by (auto simp: well_formed_def split: list.splits)

lemma after_day_succeeds:
  assumes "well_formed inp N" "d \<le> N"
  shows "\<exists>s. after_day inp N self d = Inr s"
proof -
  from well_formed_gauge [OF assms(1)] obtain g
    where g: "true_cells (out inp) = [g]" "g < length (dem inp)" by blast
  from assms have len: "d \<le> length (precip_tss inp)" "d \<le> length (temp_tss inp)"
      "d \<le> length (observed_tss inp)"
    and l: "length (lddcreate inp (dem inp)) = length (dem inp)"
    by (simp_all add: well_formed_def)
  show ?thesis
    unfolding after_day_def
    by (rule run_until_succeeds [OF len, of _ g]) (simp_all add: g l assms(2))
qed

lemmas run_defs =
  run_def initial_def dynamic_def timeinputscalar_def getCellValueAtBooleanLocation_def
  true_cells_def accuflux_def upstream_def downstream_def dynamic_cell_def MyFirstModel_def
  elevationMeteoStation_def all_pits_def Let_def

lemma well_formed_single_cell: "well_formed single_cell_inputs 3"
  by (simp add: well_formed_def single_cell_inputs_def true_cells_def all_pits_def)

section \<open>The daily transition of a cell\<close>

lemma c_snow_nonneg: "0 \<le> c_snow (dynamic_cell m tc p T s)"
  by simp

lemma c_mass_balance:
  "c_snow (dynamic_cell m tc p T s) + c_runoffGenerated (dynamic_cell m tc p T s) = s + p"
  by simp

lemma c_snow_mono:
  assumes "m1 \<le> m2" "s2 \<le> s1"
  shows "c_snow (dynamic_cell m2 tc p T s2) \<le> c_snow (dynamic_cell m1 tc p T s1)"
proof (cases "T - tc < 0")
  case True
  with assms show ?thesis by (simp add: min_def)
next
  case False
  then have "(T - tc) * m1 \<le> (T - tc) * m2"
    using assms(1) by (simp add: mult_left_mono)
  with False assms(2) show ?thesis by (simp add: min_def)
qed

lemma after_day_Suc:
  "after_day inp N self (Suc d) =
     (case after_day inp N self d of Inl e \<Rightarrow> Inl e
      | Inr s \<Rightarrow> dynamic inp (s\<lparr>currentTimeStep := Suc d\<rparr>))"
  by (simp add: after_day_def)

lemma after_day_0 [simp]:
  "after_day inp N self 0 = Inr (fst (initial inp (self\<lparr>nrTimeSteps := N\<rparr>) 0))"
  by (simp add: after_day_def)

lemma after_day_frame:
  assumes "after_day inp N self d = Inr s"
  shows "meltRate s = meltRate self" "temperatureLapseRate s = temperatureLapseRate self"
    "temperatureCorrection s =
       map (\<lambda>e. (e - elevationMeteoStation) * temperatureLapseRate self) (dem inp)"
    "ldd s = lddcreate inp (dem inp)" "observationLocation s = out inp"
    "length (modelled s) = N" "length (simulation s) = N" "length (diffOut s) = N"
    "length (rg_report s) = length (rg_report self) + d"
    "length (snow s) = length (dem inp)"
  using run_until_frame [OF assms [unfolded after_day_def]] by simp_all

lemma after_day_step:
  assumes "after_day inp N self (Suc d) = Inr s'"
  obtains s where "after_day inp N self d = Inr s"
    and "dynamic inp (s\<lparr>currentTimeStep := Suc d\<rparr>) = Inr s'"
  using assms by (auto simp: after_day_Suc split: sum.splits)

lemma snow_after_dynamic:
  assumes "dynamic inp (s\<lparr>currentTimeStep := Suc d\<rparr>) = Inr s'"
    and "i < length (temperatureCorrection s)" "i < length (snow s)"
  shows "snow s' ! i = c_snow (dynamic_cell (meltRate s) (temperatureCorrection s ! i)
            (precip_tss inp ! d) (temp_tss inp ! d) (snow s ! i))"
    and "last (rg_report s') ! i = c_runoffGenerated (dynamic_cell (meltRate s)
            (temperatureCorrection s ! i) (precip_tss inp ! d) (temp_tss inp ! d) (snow s ! i))"
  using assms(2,3) dynamic_frame(8,9) [OF assms(1)]
  by (simp_all add: nth_cells_of)

text \<open>
  Claim C1, as the code has it. On every day and for every cell, \<^verbatim>\<open>dynamic\<close> works on
  the corrected temperature, the observed temperature minus the cell's temperature
  correction, which \<^verbatim>\<open>initial\<close> computes as (elevation of the cell - elevation of the
  station) * lapse rate and which no day changes. The runoff generated is the actual melt
  plus the rainfall. When the corrected temperature is at least 0, all precipitation is
  rainfall, the potential melt is corrected temperature * melt rate, the actual melt is
  the smaller of snow store and potential melt, and the snow store decreases by the actual
  melt. When the corrected temperature is below 0, all precipitation is snowfall and is
  added to the snow store, rainfall and potential melt are 0, and the actual melt is the
  smaller of the new snow store and 0: it is 0, and the store keeps all the
  precipitation, when snow store + precipitation is not negative.
\<close>

theorem daily_transition:
  assumes "dynamic inp self = Inr self'"
    and "i < length (temperatureCorrection self)" and "i < length (snow self)"
  shows "\<exists>cd. cd = dynamic_cell (meltRate self) (temperatureCorrection self ! i)
                 (precip_tss inp ! (currentTimeStep self - 1))
                 (temp_tss inp ! (currentTimeStep self - 1)) (snow self ! i)
    \<and> snow self' ! i = c_snow cd
    \<and> last (rg_report self') ! i = c_runoffGenerated cd
    \<and> temperatureCorrection self' = temperatureCorrection self
    \<and> c_temperature cd = temp_tss inp ! (currentTimeStep self - 1) - temperatureCorrection self ! i
    \<and> (c_temperature cd < 0 \<longrightarrow>
          c_snowFall cd = precip_tss inp ! (currentTimeStep self - 1)
        \<and> c_rainFall cd = 0 \<and> c_potentialMelt cd = 0
        \<and> c_actualMelt cd = min (snow self ! i + precip_tss inp ! (currentTimeStep self - 1)) 0
        \<and> c_snow cd = snow self ! i + precip_tss inp ! (currentTimeStep self - 1) - c_actualMelt cd
        \<and> (0 \<le> snow self ! i + precip_tss inp ! (currentTimeStep self - 1) \<longrightarrow>
              c_actualMelt cd = 0
            \<and> c_snow cd = snow self ! i + precip_tss inp ! (currentTimeStep self - 1)))
    \<and> (0 \<le> c_temperature cd \<longrightarrow>
          c_snowFall cd = 0
        \<and> c_rainFall cd = precip_tss inp ! (currentTimeStep self - 1)
        \<and> c_potentialMelt cd = c_temperature cd * meltRate self
        \<and> c_actualMelt cd = min (snow self ! i) (c_potentialMelt cd)
        \<and> c_snow cd = snow self ! i - c_actualMelt cd)
    \<and> c_runoffGenerated cd = c_actualMelt cd + c_rainFall cd
    \<and> temperatureCorrection (fst (initial inp self w))
        = map (\<lambda>e. (e - elevationMeteoStation) * temperatureLapseRate self) (dem inp)"
  using assms(2,3) dynamic_frame(3,8,9) [OF assms(1)]
  by (simp add: nth_cells_of)

text \<open>
  A witness of C1: the first day of the single cell scenario, a freezing day with a
  precipitation of 10.
\<close>

theorem daily_transition_witness:
  "(case dynamic single_cell_inputs
          ((fst (initial single_cell_inputs ((MyFirstModel (1/10) True)\<lparr>nrTimeSteps := 3\<rparr>) 0))
             \<lparr>currentTimeStep := 1\<rparr>) of
      Inl e \<Rightarrow> False
    | Inr self' \<Rightarrow> snow self' ! 0 = 10 \<and> last (rg_report self') ! 0 = 0
        \<and> temperatureCorrection self' = [0])"
proof -
  let ?self = "(fst (initial single_cell_inputs ((MyFirstModel (1/10) True)\<lparr>nrTimeSteps := 3\<rparr>) 0))
                 \<lparr>currentTimeStep := 1\<rparr>"
  have "\<exists>s. dynamic single_cell_inputs ?self = Inr s"
    by (simp add: dynamic_Inr single_cell_inputs_def true_cells_def all_pits_def)
  then obtain s where s: "dynamic single_cell_inputs ?self = Inr s" ..
  have i: "0 < length (temperatureCorrection ?self)" "0 < length (snow ?self)"
    by (simp_all add: single_cell_inputs_def)
  have v: "temperatureCorrection ?self = [0]" "snow ?self ! 0 = 0"
      "precip_tss single_cell_inputs ! (currentTimeStep ?self - 1) = 10"
      "temp_tss single_cell_inputs ! (currentTimeStep ?self - 1) = -1"
    by (simp_all add: single_cell_inputs_def elevationMeteoStation_def)
  from daily_transition [OF s i, of 0] show ?thesis
    unfolding s v by simp
qed

text \<open>
  Claim C1 as the spec states it fails on a freezing day whose precipitation value is
  negative and larger in size than the snow store: the actual melt is then negative, not
  0, the snow store is 0 and not the sum of store and precipitation, and the runoff
  generated is negative.
\<close>

theorem daily_transition_counterexample:
  "c_temperature (dynamic_cell (1/10) 0 (-1) (-1) 0) < 0
   \<and> c_actualMelt (dynamic_cell (1/10) 0 (-1) (-1) 0) = -1
   \<and> c_snow (dynamic_cell (1/10) 0 (-1) (-1) 0) = 0
   \<and> map_sum id (\<lambda>fin. (snow fin, rg_report fin))
        (fst (run negative_precip_inputs 1 (MyFirstModel (1/10) True) 0)) = Inr ([0], [[-1]])"
  by (simp add: negative_precip_inputs_def run_defs)

section \<open>Invariants of a run\<close>

lemma snow_nonneg_after_day:
  assumes "after_day inp N self d = Inr s"
  shows "\<forall>x \<in> set (snow s). 0 \<le> x"
proof (cases d)
  case 0
  with assms show ?thesis by auto
next
  case (Suc k)
  with assms obtain m where "dynamic inp (m\<lparr>currentTimeStep := Suc k\<rparr>) = Inr s"
    by (auto elim: after_day_step)
  from dynamic_frame(8) [OF this] show ?thesis
    by (auto simp: cells_of_def)
qed

text \<open>
  Claim C3: a run on well formed inputs reaches every day \<open>d\<close> of its horizon, and
  after that day the snow store of every cell is at least 0 (the store is 0 at the start,
  and the actual melt never exceeds the store).
\<close>

theorem snow_nonnegative:
  assumes "well_formed inp N" and "d \<le> N"
  shows "\<exists>s. after_day inp N self d = Inr s \<and> length (snow s) = length (dem inp)
           \<and> (\<forall>i < length (dem inp). 0 \<le> snow s ! i)"
proof -
  from after_day_succeeds [OF assms] obtain s where s: "after_day inp N self d = Inr s" ..
  from snow_nonneg_after_day [OF s] after_day_frame(10) [OF s] s
  show ?thesis by auto
qed

text \<open>A witness of C3: the second day of the single cell scenario.\<close>

theorem snow_nonnegative_witness:
  "well_formed single_cell_inputs 3 \<and> (2::nat) \<le> 3
   \<and> (case after_day single_cell_inputs 3 (MyFirstModel (1/10) True) 2 of
         Inl e \<Rightarrow> False | Inr s \<Rightarrow> length (snow s) = 1 \<and> 0 \<le> snow s ! 0)"
proof -
  have le: "(2::nat) \<le> 3" by simp
  have len: "length (dem single_cell_inputs) = 1" by (simp add: single_cell_inputs_def)
  from snow_nonnegative [OF well_formed_single_cell le, of "MyFirstModel (1/10) True"]
  show ?thesis
    by (auto simp: well_formed_single_cell len)
qed




lemma snow_mono_after_day:
  assumes "after_day inp N (self\<lparr>meltRate := m1\<rparr>) d = Inr s1"
      and "after_day inp N (self\<lparr>meltRate := m2\<rparr>) d = Inr s2"
      and "m1 \<le> m2" "i < length (dem inp)"
  shows "snow s2 ! i \<le> snow s1 ! i"
  using assms(1,2)
proof (induction d arbitrary: s1 s2)
  case 0
  then show ?case using assms(4) by auto
next
  case (Suc d)
  from Suc.prems(1) obtain a where a: "after_day inp N (self\<lparr>meltRate := m1\<rparr>) d = Inr a"
    and da: "dynamic inp (a\<lparr>currentTimeStep := Suc d\<rparr>) = Inr s1"
    by (auto elim: after_day_step)
  from Suc.prems(2) obtain b where b: "after_day inp N (self\<lparr>meltRate := m2\<rparr>) d = Inr b"
    and db: "dynamic inp (b\<lparr>currentTimeStep := Suc d\<rparr>) = Inr s2"
    by (auto elim: after_day_step)
  have ia: "i < length (temperatureCorrection a)"
          "i < length (snow a)"
    using after_day_frame(3,10) [OF a] assms(4) by simp_all
  have ib: "i < length (temperatureCorrection b)"
          "i < length (snow b)"
    using after_day_frame(3,10) [OF b] assms(4) by simp_all
  have tc: "temperatureCorrection a = temperatureCorrection b"
    using after_day_frame(3) [OF a] after_day_frame(3) [OF b] by simp
  have mr: "meltRate a = m1" "meltRate b = m2"
    using after_day_frame(1) [OF a] after_day_frame(1) [OF b] by simp_all
  have "snow s1 ! i = c_snow (dynamic_cell m1 (temperatureCorrection b ! i)
            (precip_tss inp ! d) (temp_tss inp ! d) (snow a ! i))"
    using snow_after_dynamic(1) [OF da ia] tc mr by simp
  moreover have "snow s2 ! i = c_snow (dynamic_cell m2 (temperatureCorrection b ! i)
            (precip_tss inp ! d) (temp_tss inp ! d) (snow b ! i))"
    using snow_after_dynamic(1) [OF db ib] mr by simp
  ultimately show ?case
    using c_snow_mono [OF assms(3) Suc.IH [OF a b]] by simp
qed

text \<open>
  Claim C4, as the code has it: for the same inputs and the same lapse rate, and melt
  rates \<open>m1 \<le> m2\<close>, both runs finish and the total snow store over the map at the end
  of the run with \<open>m2\<close> is at most that of the run with \<open>m1\<close>.
\<close>

theorem melt_rate_monotone:
  assumes "well_formed inp N" and "m1 \<le> m2"
  shows "\<exists>fin1 fin2. fst (run inp N (self\<lparr>meltRate := m1\<rparr>) w) = Inr fin1
           \<and> fst (run inp N (self\<lparr>meltRate := m2\<rparr>) w) = Inr fin2
           \<and> sum_list (snow fin2) \<le> sum_list (snow fin1)"
proof -
  from assms(1) have N: "0 < N" by (simp add: well_formed_def)
  from after_day_succeeds [OF assms(1) order_refl]
  obtain fin1 where f1: "after_day inp N (self\<lparr>meltRate := m1\<rparr>) N = Inr fin1" ..
  from after_day_succeeds [OF assms(1) order_refl]
  obtain fin2 where f2: "after_day inp N (self\<lparr>meltRate := m2\<rparr>) N = Inr fin2" ..
  have len: "length (snow fin2) = length (snow fin1)" "length (snow fin2) = length (dem inp)"
    using after_day_frame(10) [OF f1] after_day_frame(10) [OF f2] by simp_all
  have "sum_list (snow fin2) \<le> sum_list (snow fin1)"
    using len snow_mono_after_day [OF f1 f2 assms(2)]
    by (intro sum_list_mono2) simp_all
  with f1 f2 N show ?thesis by (simp add: run_after_day)
qed

text \<open>A witness of C4: the single cell scenario with the melt rates 0.1 and 0.2.\<close>

theorem melt_rate_monotone_witness:
  "well_formed single_cell_inputs 3 \<and> (1/10 :: real) \<le> 2/10
   \<and> (case (fst (run single_cell_inputs 3 (MyFirstModel (1/10) True) 0),
             fst (run single_cell_inputs 3 (MyFirstModel (2/10) True) 0)) of
         (Inr fin1, Inr fin2) \<Rightarrow> sum_list (snow fin2) \<le> sum_list (snow fin1)
       | _ \<Rightarrow> False)"
proof -
  have m: "(1/10 :: real) \<le> 2/10" by simp
  have e: "MyFirstModel (1/10) True = (MyFirstModel (1/10) True)\<lparr>meltRate := 1/10\<rparr>"
          "MyFirstModel (2/10) True = (MyFirstModel (1/10) True)\<lparr>meltRate := 2/10\<rparr>"
    by (simp_all add: MyFirstModel_def)
  from melt_rate_monotone [OF well_formed_single_cell m, of "MyFirstModel (1/10) True" 0]
  show ?thesis
    unfolding e [symmetric]
    by (auto simp: well_formed_single_cell)
qed

text \<open>
  Claim C4 as the spec states it asks for a strictly smaller total unless the store is
  fully melted. A run of one freezing day leaves a store of 10 with the melt rate 0.1 and
  with the melt rate 0.2: not less, and not melted.
\<close>

theorem melt_rate_strict_counterexample:
  "(1/10 :: real) < 2/10
   \<and> final_total_snow single_cell_inputs 1 (MyFirstModel (1/10) True) = Some 10
   \<and> final_total_snow single_cell_inputs 1 (MyFirstModel (2/10) True) = Some 10"
  by (simp add: final_total_snow_def single_cell_inputs_def run_defs)

section \<open>The single cell scenario\<close>

text \<open>
  Claim C9: one cell at the elevation of the station (temperature correction 0),
  precipitation 10, 0, 0, observed temperature -1, 5, 5 and melt rate 0.1. Day 1 freezes:
  snow store 10, runoff 0. Days 2 and 3 melt with potential and actual melt 0.5 each:
  snow store 9.5 and then 9, runoff 0.5 on both days.
\<close>

theorem single_cell_scenario:
  "temperatureCorrection (fst (initial single_cell_inputs ((MyFirstModel (1/10) True)\<lparr>nrTimeSteps := 3\<rparr>) 0)) = [0]
   \<and> day_cells single_cell_inputs 3 (MyFirstModel (1/10) True) 1
       = Inr [\<lparr> c_temperature = -1, c_freezing = True, c_snowFall = 10, c_rainFall = 0,
                c_potentialMelt = 0, c_actualMelt = 0, c_snow = 10,
                c_runoffGenerated = 0 \<rparr>]
   \<and> day_cells single_cell_inputs 3 (MyFirstModel (1/10) True) 2
       = Inr [\<lparr> c_temperature = 5, c_freezing = False, c_snowFall = 0, c_rainFall = 0,
                c_potentialMelt = 1/2, c_actualMelt = 1/2, c_snow = 19/2,
                c_runoffGenerated = 1/2 \<rparr>]
   \<and> day_cells single_cell_inputs 3 (MyFirstModel (1/10) True) 3
       = Inr [\<lparr> c_temperature = 5, c_freezing = False, c_snowFall = 0, c_rainFall = 0,
                c_potentialMelt = 1/2, c_actualMelt = 1/2, c_snow = 9,
                c_runoffGenerated = 1/2 \<rparr>]
   \<and> map_sum id (\<lambda>fin. (snow fin, rg_report fin))
        (fst (run single_cell_inputs 3 (MyFirstModel (1/10) True) 0))
       = Inr ([9], [[0], [1/2], [1/2]])"
  by (simp add: day_cells_def cells_of_def after_day_def eval_nat_numeral
        single_cell_inputs_def run_defs)

section \<open>Flow accumulation\<close>

lemma upstream_D: "u \<in> set (upstream l i) \<Longrightarrow> u < length l \<and> downstream l u = Some i"
  by (simp add: upstream_def)

lemma accu_stable:
  assumes "i < length l" and "\<forall>j < length l. follow l f j \<noteq> Some i"
  shows "accu f l m i = accu (Suc f) l m i"
  using assms
proof (induction f arbitrary: i)
  case 0
  then have "follow l 0 i \<noteq> Some i" by blast
  with 0(1) show ?case by simp
next
  case (Suc f)
  have "accu f l m u = accu (Suc f) l m u" if u: "u \<in> set (upstream l i)" for u
  proof (rule Suc.IH)
    from upstream_D [OF u] show "u < length l" by simp
    show "\<forall>j<length l. follow l f j \<noteq> Some u"
    proof (intro allI impI notI)
      fix j assume "j < length l" and "follow l f j = Some u"
      then have "follow l (Suc f) j = Some i"
        using upstream_D [OF u] by simp
      with Suc.prems(2) \<open>j < length l\<close> show False by blast
    qed
  qed
  then have e: "map (accu f l m) (upstream l i) = map (accu (Suc f) l m) (upstream l i)"
    by (intro map_cong [OF refl])
  show ?case
    by (simp only: accu.simps(2) [of f l m i] accu.simps(2) [of "Suc f" l m i] e)
qed

lemma acyclic_ldd_follow:
  "acyclic_ldd l \<Longrightarrow> j < length l \<Longrightarrow> follow l (length l) j = None"
  by (simp add: acyclic_ldd_def list_all_iff)

lemma nth_accuflux: "i < length l \<Longrightarrow> accuflux l m ! i = accu (length l) l m i"
  by (simp add: accuflux_def)

lemma accuflux_rec:
  assumes "acyclic_ldd l" and "i < length l"
  shows "accuflux l m ! i = m ! i + (\<Sum>j\<leftarrow>upstream l i. accuflux l m ! j)"
proof -
  have "accu (length l) l m i = accu (Suc (length l)) l m i"
    using assms by (intro accu_stable) (simp_all add: acyclic_ldd_follow)
  moreover have "map (\<lambda>j. accuflux l m ! j) (upstream l i) = map (accu (length l) l m) (upstream l i)"
    by (rule map_cong [OF refl]) (simp add: nth_accuflux upstream_D)
  ultimately show ?thesis
    by (simp only: nth_accuflux [OF assms(2)] accu.simps(2) [of "length l" l m i])
qed

text \<open>
  Claim C6, for the flow accumulation as the spec describes it. On every day, over a
  drainage network in which every flow path ends, the accumulated discharge of a cell is
  the runoff it generated times the cell area plus the accumulated discharge of all cells
  whose downstream pointer targets it; the value stored for the day in the series of
  modelled discharge is the accumulated discharge at the one observation cell; and for
  two cells of area 1 in a line that both generate a runoff of 1, the accumulated
  discharge is 1 at the source and 2 at the sink.
\<close>

theorem accumulated_discharge:
  assumes "dynamic inp self = Inr self'" and "acyclic_ldd (ldd self)"
    and "length (temperatureCorrection self) = length (ldd self)"
    and "length (snow self) = length (ldd self)"
    and "i < length (ldd self)"
  shows "\<exists>discharge g.
      discharge = accuflux (ldd self) (map (\<lambda>r. r * cellarea inp) (last (rg_report self')))
    \<and> discharge ! i = last (rg_report self') ! i * cellarea inp
                       + (\<Sum>j\<leftarrow>upstream (ldd self) i. discharge ! j)
    \<and> true_cells (observationLocation self) = [g]
    \<and> modelled self' ! (currentTimeStep self - 1) = discharge ! g
    \<and> accuflux [Some 1, None] (map (\<lambda>r. r * 1) [1, 1]) = [1, 2]"
proof -
  let ?rg = "map c_runoffGenerated (cells_of inp self)"
  let ?d = "accuflux (ldd self) (map (\<lambda>r. r * cellarea inp) ?rg)"
  from assms(1) obtain g where g: "true_cells (observationLocation self) = [g]"
    and t: "1 \<le> currentTimeStep self" "currentTimeStep self \<le> length (modelled self)"
    and m: "modelled self' = (modelled self)[currentTimeStep self - 1 := discharge_of inp self ! g]"
    by (auto simp: dynamic_Inr)
  have rg: "last (rg_report self') = ?rg"
    using dynamic_frame(9) [OF assms(1)] by simp
  have i: "i < length ?rg" using assms(3,4,5) by simp
  have "?d ! i = map (\<lambda>r. r * cellarea inp) ?rg ! i + (\<Sum>j\<leftarrow>upstream (ldd self) i. ?d ! j)"
    by (rule accuflux_rec [OF assms(2,5)])
  also have "map (\<lambda>r. r * cellarea inp) ?rg ! i = ?rg ! i * cellarea inp"
    using i by (simp only: nth_map)
  finally have rec: "?d ! i = ?rg ! i * cellarea inp + (\<Sum>j\<leftarrow>upstream (ldd self) i. ?d ! j)" .
  have "currentTimeStep self - 1 < length (modelled self)"
    using t by simp
  then have mg: "modelled self' ! (currentTimeStep self - 1) = ?d ! g"
    by (simp add: m discharge_of_def)
  have ex: "accuflux [Some 1, None] (map (\<lambda>r. r * 1) [1, 1]) = [1, 2 :: real]"
    by (simp add: accuflux_def upstream_def downstream_def upt_rec)
  show ?thesis
    unfolding rg using rec g mg ex by blast
qed

text \<open>
  A witness of C6: a day of rain on two cells in a line, observed at the sink, where
  the modelled discharge is 2.
\<close>

theorem accumulated_discharge_witness:
  "acyclic_ldd [Some 1, None]
   \<and> (case dynamic two_cell_inputs
            ((fst (initial two_cell_inputs ((MyFirstModel (1/10) True)\<lparr>nrTimeSteps := 1\<rparr>) 0))
               \<lparr>currentTimeStep := 1\<rparr>) of
        Inl e \<Rightarrow> False
      | Inr self' \<Rightarrow> last (rg_report self') = [1, 1] \<and> modelled self' = [2])"
proof -
  let ?self = "(fst (initial two_cell_inputs ((MyFirstModel (1/10) True)\<lparr>nrTimeSteps := 1\<rparr>) 0))
                 \<lparr>currentTimeStep := 1\<rparr>"
  have ac: "acyclic_ldd [Some 1, None]"
    by (simp add: acyclic_ldd_def downstream_def upt_rec)
  have "\<exists>s. dynamic two_cell_inputs ?self = Inr s"
    by (simp add: dynamic_Inr two_cell_inputs_def true_cells_def upt_rec)
  then obtain s where s: "dynamic two_cell_inputs ?self = Inr s" ..
  have l: "ldd ?self = [Some 1, None]" by (simp add: two_cell_inputs_def)
  have h: "acyclic_ldd (ldd ?self)" "length (temperatureCorrection ?self) = length (ldd ?self)"
     "length (snow ?self) = length (ldd ?self)" "1 < length (ldd ?self)"
    unfolding l using ac by (simp_all add: two_cell_inputs_def)
  have v: "last (rg_report s) = [1, 1] \<and> modelled s = [2]"
    using s by (auto simp: two_cell_inputs_def run_defs upt_rec)
  from accumulated_discharge [OF s h] show ?thesis
    unfolding s using ac v by simp
qed

section \<open>The series of a run\<close>

lemma series_invariant:
  assumes "after_day inp N self d = Inr s" and "d \<le> N" and "1 \<le> k" and "k \<le> d"
  shows "day_discharge inp N self k = Inr (modelled s ! (k - 1))
       \<and> simulation s ! (k - 1) = observed_tss inp ! (k - 1) - modelled s ! (k - 1)
       \<and> diffOut s ! (k - 1) = simulation s ! (k - 1)"
  using assms(1,2,4)
proof (induction d arbitrary: s)
  case 0
  with assms(3) show ?case by simp
next
  case (Suc d)
  from Suc.prems(1) obtain m where m: "after_day inp N self d = Inr m"
    and dyn: "dynamic inp (m\<lparr>currentTimeStep := Suc d\<rparr>) = Inr s"
    by (auto elim: after_day_step)
  let ?q = "discharge_of inp (m\<lparr>currentTimeStep := Suc d\<rparr>)"
  from dyn obtain g where g: "true_cells (observationLocation m) = [g]" "g < length (ldd m)"
    and mo: "modelled s = (modelled m)[d := ?q ! g]"
    and si: "simulation s = (simulation m)[d := observed_tss inp ! d - ?q ! g]"
    and di: "diffOut s = (diffOut m)[d := observed_tss inp ! d - ?q ! g]"
    by (auto simp: dynamic_Inr)
  have len: "d < length (modelled m)" "d < length (simulation m)" "d < length (diffOut m)"
    using after_day_frame(6,7,8) [OF m] Suc.prems(2) by simp_all
  show ?case
  proof (cases "k = Suc d")
    case True
    have "day_discharge inp N self (Suc d) = Inr (?q ! g)"
      using m g by (simp add: day_discharge_def getCell_Inr discharge_of_def)
    with True len show ?thesis by (simp add: mo si di)
  next
    case False
    with Suc.prems(3) have k: "k \<le> d" by simp
    with assms(3) have ne: "k - 1 \<noteq> d" by simp
    from Suc.IH [OF m _ k] Suc.prems(2) ne show ?thesis
      by (simp add: mo si di)
  qed
qed

text \<open>
  Claim C8: a run of \<open>N\<close> days on well formed inputs finishes with a series of
  modelled discharge and a series of differences of \<open>N\<close> rows each, and for every
  day \<open>d\<close> from 1 to \<open>N\<close> row \<open>d - 1\<close> holds the discharge modelled at the
  observation location on day \<open>d\<close> and the observed discharge of day \<open>d\<close> minus that
  modelled discharge.
\<close>

theorem daily_difference_series:
  assumes "well_formed inp N"
  shows "\<exists>fin. fst (run inp N self w) = Inr fin
     \<and> length (modelled fin) = N \<and> length (simulation fin) = N
     \<and> length (zip (modelled fin) (simulation fin)) = N
     \<and> (\<forall>d. 1 \<le> d \<and> d \<le> N \<longrightarrow>
           day_discharge inp N self d = Inr (modelled fin ! (d - 1))
         \<and> simulation fin ! (d - 1) = observed_tss inp ! (d - 1) - modelled fin ! (d - 1)
         \<and> zip (modelled fin) (simulation fin) ! (d - 1)
             = (modelled fin ! (d - 1), observed_tss inp ! (d - 1) - modelled fin ! (d - 1)))"
proof -
  from assms have N: "0 < N" by (simp add: well_formed_def)
  from after_day_succeeds [OF assms order_refl]
  obtain fin where fin: "after_day inp N self N = Inr fin" ..
  note fr = after_day_frame(6,7) [OF fin]
  have key: "day_discharge inp N self d = Inr (modelled fin ! (d - 1))
         \<and> simulation fin ! (d - 1) = observed_tss inp ! (d - 1) - modelled fin ! (d - 1)
         \<and> zip (modelled fin) (simulation fin) ! (d - 1)
             = (modelled fin ! (d - 1), observed_tss inp ! (d - 1) - modelled fin ! (d - 1))"
    if "1 \<le> d" "d \<le> N" for d
    using series_invariant [OF fin order_refl that] that fr by simp
  have "fst (run inp N self w) = Inr fin"
    using fin N by (simp add: run_after_day)
  with fr key show ?thesis
    by (intro exI [of _ fin]) (simp only: length_zip min.idem, blast)
qed

text \<open>A witness of C8: the three days of the single cell scenario.\<close>

theorem daily_difference_series_witness:
  "well_formed single_cell_inputs 3
   \<and> (case fst (run single_cell_inputs 3 (MyFirstModel (1/10) True) 0) of
        Inl e \<Rightarrow> False
      | Inr fin \<Rightarrow> zip (modelled fin) (simulation fin) = [(0, 0), (1/2, -1/2), (1/2, -1/2)])
   \<and> day_discharge single_cell_inputs 3 (MyFirstModel (1/10) True) 2 = Inr (1/2)"
proof -
  have v: "fst (run single_cell_inputs 3 (MyFirstModel (1/10) True) 0) = Inr fin \<Longrightarrow>
      zip (modelled fin) (simulation fin) = [(0, 0), (1/2, -1/2), (1/2, -1/2)]" for fin
    by (auto simp: eval_nat_numeral single_cell_inputs_def run_defs)
  have d: "day_discharge single_cell_inputs 3 (MyFirstModel (1/10) True) 2 = Inr (1/2)"
    by (simp add: day_discharge_def discharge_of_def cells_of_def after_day_def
        eval_nat_numeral single_cell_inputs_def run_defs)
  from daily_difference_series [OF well_formed_single_cell, of "MyFirstModel (1/10) True" 0]
  show ?thesis
    using v d by (auto simp: well_formed_single_cell)
qed

section \<open>The calibration loop\<close>

lemma rint_Ints: "rint x \<in> \<int>"
  by (simp add: rint_def Let_def)

lemma rint_near: "\<bar>rint x - x\<bar> \<le> 1/2"
proof -
  show ?thesis
    by (auto simp: rint_def Let_def abs_if) linarith+
qed

lemma round4_near: "\<bar>round4 x - x\<bar> \<le> 1/20000"
proof -
  have "\<bar>round4 x - x\<bar> = \<bar>rint (x * 10000) - x * 10000\<bar> / 10000"
    by (simp add: round4_def field_simps abs_if)
  also have "\<dots> \<le> (1/2) / 10000"
    by (intro divide_right_mono rint_near) simp
  finally show ?thesis by simp
qed

lemma MyFirstModel_fields [simp]:
  "meltRate (MyFirstModel c flag) = (if flag then c else 0.01)"
  "temperatureLapseRate (MyFirstModel c flag) = (if flag then 0.005 else c)"
  "rg_report (MyFirstModel c flag) = []"
  by (simp_all add: MyFirstModel_def)

lemma calibration_step:
  assumes "run inp N (MyFirstModel c flag) w = (Inr fin, w1)"
  shows "calibration inp flag N (c # cs) (acc, w)
       = calibration inp flag N cs (acc @ [sweep_record_of fin], w1)"
  using assms by (simp add: sweep_record_of_def Let_def)

lemma calibration_spec:
  assumes "well_formed inp N"
  shows "\<exists>fins. list_all2 (\<lambda>c fin. after_day inp N (MyFirstModel c flag) N = Inr fin) cs fins
           \<and> calibration inp flag N cs (acc, w)
               = Inr (acc @ map sweep_record_of fins, w + length cs)"
proof (induction cs arbitrary: acc w)
  case Nil
  show ?case by simp
next
  case (Cons c cs)
  from assms have N: "0 < N" by (simp add: well_formed_def)
  from after_day_succeeds [OF assms order_refl]
  obtain fin where fin: "after_day inp N (MyFirstModel c flag) N = Inr fin" ..
  then have r: "run inp N (MyFirstModel c flag) w = (Inr fin, Suc w)"
    using N by (simp add: run_after_day)
  from Cons.IH [of "acc @ [sweep_record_of fin]" "Suc w"]
  obtain fins where fins:
    "list_all2 (\<lambda>c fin. after_day inp N (MyFirstModel c flag) N = Inr fin) cs fins"
    "calibration inp flag N cs (acc @ [sweep_record_of fin], Suc w)
       = Inr ((acc @ [sweep_record_of fin]) @ map sweep_record_of fins, Suc w + length cs)"
    by blast
  have "list_all2 (\<lambda>c fin. after_day inp N (MyFirstModel c flag) N = Inr fin)
          (c # cs) (fin # fins)"
    using fin fins(1) by simp
  moreover have "calibration inp flag N (c # cs) (acc, w)
       = Inr (acc @ map sweep_record_of (fin # fins), w + length (c # cs))"
    by (simp only: calibration_step [OF r] fins(2)) simp
  ultimately show ?case by blast
qed

text \<open>
  Claim C5, as the code has it. On well formed inputs the loop handles every candidate
  of the range, in order and without stopping early: it runs a fresh model over the
  whole horizon with the candidate as the free parameter and the default of the other
  one (lapse rate 0.005, melt rate 0.01), takes as objective the mean of the absolute
  values of the \<open>N\<close> differences of that run, and appends one record, made of the melt
  rate rounded to 4 decimals, the lapse rate rounded to 4 decimals and the objective
  rounded to an integer.
\<close>

theorem calibration_sweep:
  assumes "well_formed inp N"
  shows "\<exists>fins.
      list_all2 (\<lambda>c fin. fst (run inp N (MyFirstModel c flag) 0) = Inr fin
                    \<and> meltRate fin = (if flag then c else 0.01)
                    \<and> temperatureLapseRate fin = (if flag then 0.005 else c)
                    \<and> length (simulation fin) = N) cs fins
    \<and> calibration inp flag N cs ([], w)
        = Inr (map (\<lambda>fin. (round4 (meltRate fin), round4 (temperatureLapseRate fin),
                           rint (sum_list (map abs (simulation fin)) / real N))) fins,
               w + length cs)"
proof -
  from assms have N: "0 < N" by (simp add: well_formed_def)
  from calibration_spec [OF assms, of flag cs "[]" w]
  obtain fins where fins:
    "list_all2 (\<lambda>c fin. after_day inp N (MyFirstModel c flag) N = Inr fin) cs fins"
    and cal: "calibration inp flag N cs ([], w) = Inr (map sweep_record_of fins, w + length cs)"
    by auto
  have a: "list_all2 (\<lambda>c fin. fst (run inp N (MyFirstModel c flag) 0) = Inr fin
                    \<and> meltRate fin = (if flag then c else 0.01)
                    \<and> temperatureLapseRate fin = (if flag then 0.005 else c)
                    \<and> length (simulation fin) = N) cs fins"
    using fins
  proof (rule list_all2_mono)
    fix c fin assume h: "after_day inp N (MyFirstModel c flag) N = Inr fin"
    from after_day_frame(1,2,7) [OF h] h N
    show "fst (run inp N (MyFirstModel c flag) 0) = Inr fin
        \<and> meltRate fin = (if flag then c else 0.01)
        \<and> temperatureLapseRate fin = (if flag then 0.005 else c)
        \<and> length (simulation fin) = N"
      by (simp add: run_after_day)
  qed
  have "length (simulation fin) = N" if "fin \<in> set fins" for fin
    using that a by (auto simp: in_set_conv_nth list_all2_conv_all_nth)
  then have "map sweep_record_of fins
      = map (\<lambda>fin. (round4 (meltRate fin), round4 (temperatureLapseRate fin),
                           rint (sum_list (map abs (simulation fin)) / real N))) fins"
    by (intro map_cong [OF refl]) (simp add: sweep_record_of_def mean_def)
  with a cal show ?thesis by auto
qed

text \<open>A witness of C5: the single cell scenario swept over the melt rates 0.1 and 0.2.\<close>

theorem calibration_sweep_witness:
  "well_formed single_cell_inputs 3
   \<and> calibration single_cell_inputs True 3 [1/10, 2/10] ([], 0)
       = Inr ([(1/10, 1/200, 0), (2/10, 1/200, 1)], 2)"
proof -
  have v: "calibration single_cell_inputs True 3 [1/10, 2/10] ([], 0)
       = Inr ([(1/10, 1/200, 0), (2/10, 1/200, 1)], 2)"
    by (simp add: eval_nat_numeral single_cell_inputs_def run_defs rint_def round4_def
        mean_def)
  from calibration_sweep [OF well_formed_single_cell, of True "[1/10, 2/10]" 0]
  show ?thesis
    unfolding v using well_formed_single_cell by blast
qed

text \<open>
  Claim C5 as the spec states it has the melt rate itself in the record. For the
  candidate 0.00012 the run uses the melt rate 0.00012 and the record holds 0.0001.
\<close>

theorem calibration_record_counterexample:
  "map_sum id meltRate (fst (run single_cell_inputs 1 (MyFirstModel (12/100000) True) 0))
      = Inr (12/100000)
   \<and> calibration single_cell_inputs True 1 [12/100000] ([], 0)
      = Inr ([(1/10000, 1/200, 0)], 1)"
  by (simp add: single_cell_inputs_def run_defs rint_def round4_def mean_def)

text \<open>
  Claim C10: the record appended for a candidate holds the melt rate and the lapse rate
  of the run scaled by \<open>10\<^sup>4\<close>, rounded to an integer and scaled back, hence within
  0.00005 of the values used, and the objective rounded to an integer within 0.5 of it;
  for the candidate 0.00012 the value recorded for the free parameter is 0.0001 and
  differs from the value the run uses.
\<close>

theorem recorded_values_rounded:
  assumes "well_formed inp N"
  shows "\<exists>fin r. fst (run inp N (MyFirstModel c flag) w) = Inr fin
     \<and> calibration inp flag N (c # cs) (acc, w) = calibration inp flag N cs (acc @ [r], Suc w)
     \<and> r = (rint (meltRate fin * 10000) / 10000,
            rint (temperatureLapseRate fin * 10000) / 10000,
            rint (mean (map abs (simulation fin))))
     \<and> \<bar>fst r - meltRate fin\<bar> \<le> 1/20000
     \<and> \<bar>fst (snd r) - temperatureLapseRate fin\<bar> \<le> 1/20000
     \<and> snd (snd r) \<in> \<int>
     \<and> \<bar>snd (snd r) - mean (map abs (simulation fin))\<bar> \<le> 1/2
     \<and> (c = 12/100000 \<longrightarrow>
           (if flag then meltRate fin = c \<and> fst r = 1/10000
            else temperatureLapseRate fin = c \<and> fst (snd r) = 1/10000))"
proof -
  from assms have N: "0 < N" by (simp add: well_formed_def)
  from after_day_succeeds [OF assms order_refl]
  obtain fin where fin: "after_day inp N (MyFirstModel c flag) N = Inr fin" ..
  then have r: "run inp N (MyFirstModel c flag) w = (Inr fin, Suc w)"
    using N by (simp add: run_after_day)
  have e: "round4 (12/100000) = 1/10000"
    by (simp add: round4_def rint_def Let_def)
  have p: "meltRate fin = (if flag then c else 0.01)"
      "temperatureLapseRate fin = (if flag then 0.005 else c)"
    using after_day_frame(1,2) [OF fin] by simp_all
  have "c = 12/100000 \<longrightarrow>
           (if flag then meltRate fin = c \<and> fst (sweep_record_of fin) = 1/10000
            else temperatureLapseRate fin = c \<and> fst (snd (sweep_record_of fin)) = 1/10000)"
  proof
    assume c: "c = 12/100000"
    show "if flag then meltRate fin = c \<and> fst (sweep_record_of fin) = 1/10000
            else temperatureLapseRate fin = c \<and> fst (snd (sweep_record_of fin)) = 1/10000"
    proof (cases flag)
      case True
      have m: "meltRate fin = c" using p(1) True by simp
      have "fst (sweep_record_of fin) = round4 c"
        by (simp only: sweep_record_of_def fst_conv m)
      also have "\<dots> = 1/10000" unfolding c by (rule e)
      finally have "fst (sweep_record_of fin) = 1/10000" .
      with m True show ?thesis by (simp only: if_True simp_thms)
    next
      case False
      have m: "temperatureLapseRate fin = c" using p(2) False by simp
      have "fst (snd (sweep_record_of fin)) = round4 c"
        by (simp only: sweep_record_of_def fst_conv snd_conv m)
      also have "\<dots> = 1/10000" unfolding c by (rule e)
      finally have "fst (snd (sweep_record_of fin)) = 1/10000" .
      with m False show ?thesis by (simp only: if_False simp_thms)
    qed
  qed
  moreover have "sweep_record_of fin = (rint (meltRate fin * 10000) / 10000,
            rint (temperatureLapseRate fin * 10000) / 10000,
            rint (mean (map abs (simulation fin))))"
    by (simp add: sweep_record_of_def round4_def)
  moreover have "\<bar>fst (sweep_record_of fin) - meltRate fin\<bar> \<le> 1/20000"
     "\<bar>fst (snd (sweep_record_of fin)) - temperatureLapseRate fin\<bar> \<le> 1/20000"
     "snd (snd (sweep_record_of fin)) \<in> \<int>"
     "\<bar>snd (snd (sweep_record_of fin)) - mean (map abs (simulation fin))\<bar> \<le> 1/2"
    using round4_near rint_near rint_Ints by (simp_all add: sweep_record_of_def)
  ultimately show ?thesis
    using calibration_step [OF r, of cs acc] r by (intro exI [of _ fin] exI [of _ "sweep_record_of fin"]) simp
qed

text \<open>A witness of C10: the single cell scenario with the candidate 0.00012.\<close>

theorem recorded_values_rounded_witness:
  "well_formed single_cell_inputs 3
   \<and> map_sum id meltRate (fst (run single_cell_inputs 3 (MyFirstModel (12/100000) True) 0))
       = Inr (12/100000)
   \<and> map_sum id (\<lambda>(res, w). map fst res)
        (calibration single_cell_inputs True 3 [12/100000] ([], 0)) = Inr [1/10000]"
proof -
  from recorded_values_rounded [OF well_formed_single_cell, of "12/100000" True 0 "[]" "[]"]
  show ?thesis
    by (auto simp: well_formed_single_cell)
qed

text \<open>
  Claim C7, as the code has it. \<^verbatim>\<open>initial\<close> derives the drainage network, so a
  sweep derives it once for each candidate, always from the same elevation map: every
  run holds the same network on every day. Every run starts from a snow store of 0 and
  from result series of zeros, and the record of a candidate is the one that a sweep of
  this candidate alone produces: nothing is carried over from one candidate to the next.
\<close>

theorem drainage_network_per_run:
  assumes "well_formed inp N"
  shows "\<exists>res. calibration inp flag N cs ([], w) = Inr (res, w + length cs)
     \<and> length res = length cs
     \<and> (\<forall>k<length cs.
           calibration inp flag N [cs ! k] ([], 0) = Inr ([res ! k], 1)
         \<and> run inp N (MyFirstModel (cs ! k) flag) w
             = (after_day inp N (MyFirstModel (cs ! k) flag) N, Suc w)
         \<and> (\<forall>d\<le>N. \<exists>s. after_day inp N (MyFirstModel (cs ! k) flag) d = Inr s
                \<and> ldd s = lddcreate inp (dem inp)
                \<and> (d = 0 \<longrightarrow> snow s = replicate (length (dem inp)) 0
                      \<and> simulation s = replicate N 0 \<and> modelled s = replicate N 0
                      \<and> diffOut s = replicate N 0)))"
proof -
  from assms have N: "0 < N" by (simp add: well_formed_def)
  from calibration_spec [OF assms, of flag cs "[]" w]
  obtain fins where fins:
    "list_all2 (\<lambda>c fin. after_day inp N (MyFirstModel c flag) N = Inr fin) cs fins"
    and cal: "calibration inp flag N cs ([], w) = Inr (map sweep_record_of fins, w + length cs)"
    by auto
  from fins have len: "length fins = length cs"
    and nth: "\<And>k. k < length cs \<Longrightarrow> after_day inp N (MyFirstModel (cs ! k) flag) N = Inr (fins ! k)"
    by (simp_all add: list_all2_conv_all_nth)
  have one: "calibration inp flag N [cs ! k] ([], 0) = Inr ([map sweep_record_of fins ! k], 1)"
    if k: "k < length cs" for k
  proof -
    have "run inp N (MyFirstModel (cs ! k) flag) 0 = (Inr (fins ! k), Suc 0)"
      using nth [OF k] N by (simp add: run_after_day)
    from calibration_step [OF this, of "[]" "[]"] k len show ?thesis by simp
  qed
  have days: "\<exists>s. after_day inp N (MyFirstModel c flag) d = Inr s
                \<and> ldd s = lddcreate inp (dem inp)
                \<and> (d = 0 \<longrightarrow> snow s = replicate (length (dem inp)) 0
                      \<and> simulation s = replicate N 0 \<and> modelled s = replicate N 0
                      \<and> diffOut s = replicate N 0)" if "d \<le> N" for c d
  proof -
    from after_day_succeeds [OF assms that]
    obtain s where s: "after_day inp N (MyFirstModel c flag) d = Inr s" ..
    from after_day_frame(4) [OF s] s show ?thesis by auto
  qed
  have "length (map sweep_record_of fins) = length cs" using len by simp
  with cal one days N show ?thesis
    by (intro exI [of _ "map sweep_record_of fins"]) (simp add: run_after_day)
qed

text \<open>A witness of C7: the single cell scenario swept over two melt rates.\<close>

theorem drainage_network_per_run_witness:
  "well_formed single_cell_inputs 3
   \<and> map_sum id snd (calibration single_cell_inputs True 3 [1/10, 2/10] ([], 0)) = Inr 2
   \<and> map_sum id ldd (after_day single_cell_inputs 3 (MyFirstModel (2/10) True) 3) = Inr [None]"
proof -
  have l: "lddcreate single_cell_inputs (dem single_cell_inputs) = [None]"
    by (simp add: single_cell_inputs_def all_pits_def)
  from drainage_network_per_run [OF well_formed_single_cell, of True "[1/10, 2/10]" 0]
  obtain res where a: "calibration single_cell_inputs True 3 [1/10, 2/10] ([], 0)
        = Inr (res, 0 + length [1/10, 2/10 :: real])"
    and b: "\<forall>k<length [1/10, 2/10 :: real].
           calibration single_cell_inputs True 3 [[1/10, 2/10] ! k] ([], 0) = Inr ([res ! k], 1)
         \<and> run single_cell_inputs 3 (MyFirstModel ([1/10, 2/10] ! k) True) 0
             = (after_day single_cell_inputs 3 (MyFirstModel ([1/10, 2/10] ! k) True) 3, Suc 0)
         \<and> (\<forall>d\<le>3. \<exists>s. after_day single_cell_inputs 3 (MyFirstModel ([1/10, 2/10] ! k) True) d = Inr s
                \<and> ldd s = lddcreate single_cell_inputs (dem single_cell_inputs)
                \<and> (d = 0 \<longrightarrow> snow s = replicate (length (dem single_cell_inputs)) 0
                      \<and> simulation s = replicate 3 0 \<and> modelled s = replicate 3 0
                      \<and> diffOut s = replicate 3 0))"
    by blast
  have w2: "map_sum id snd (calibration single_cell_inputs True 3 [1/10, 2/10] ([], 0)) = Inr 2"
    by (simp only: a map_sum.simps snd_conv id_apply) simp
  have k: "(1::nat) < length [1/10, 2/10 :: real]" by simp
  from b [rule_format, OF k]
  have "\<forall>d\<le>3. \<exists>s. after_day single_cell_inputs 3 (MyFirstModel ([1/10, 2/10] ! 1) True) d = Inr s
                \<and> ldd s = lddcreate single_cell_inputs (dem single_cell_inputs)
                \<and> (d = 0 \<longrightarrow> snow s = replicate (length (dem single_cell_inputs)) 0
                      \<and> simulation s = replicate 3 0 \<and> modelled s = replicate 3 0
                      \<and> diffOut s = replicate 3 0)"
    by blast
  from this [rule_format, OF le_refl]
  obtain s where "after_day single_cell_inputs 3 (MyFirstModel ([1/10, 2/10] ! 1) True) 3 = Inr s"
    "ldd s = lddcreate single_cell_inputs (dem single_cell_inputs)"
    by blast
  then have "map_sum id ldd (after_day single_cell_inputs 3 (MyFirstModel (2/10) True) 3)
      = Inr [None]"
    by (simp add: l)
  with w2 well_formed_single_cell show ?thesis by blast
qed

text \<open>
  Claim C7 as the spec states it has the network derived exactly once. A sweep of two
  candidates derives it twice.
\<close>

theorem drainage_network_once_counterexample:
  "map_sum id snd (calibration single_cell_inputs True 1 [1/10, 2/10] ([], 0)) = Inr 2"
  by (simp add: single_cell_inputs_def run_defs)

end
